theory Spec2Isabelle
  imports Complex_Main
begin

section \<open>The object reconstruction node\<close>

text \<open>
  A shallow embedding of \<^verbatim>\<open>src/ros/nodes/object_reconstruction.cpp\<close>: the class
  \<^verbatim>\<open>object_reconstruction_node\<close> and its service handler \<^verbatim>\<open>FixOcclusions\<close>.
  The handler is orchestration code. It mutates three fields of the node and calls
  collaborators (\<^verbatim>\<open>PointCloudAccumulator\<close>, \<^verbatim>\<open>ObjectCandidateExtractor\<close>,
  \<^verbatim>\<open>HelperFunctions\<close>, \<^verbatim>\<open>OcclusionRepair\<close>) whose sources are not part of the
  repository snapshot. The model threads the node explicitly, takes the collaborators as
  a record of functions, and records every collaborator call, with its arguments, in a
  call trace, so that "which stage ran, in which order, on what" is a value one can
  reason about.
\<close>

subsection \<open>Data\<close>

text \<open>
  Modelled from the spec: the type \<^verbatim>\<open>PointCloud\<close> is declared in the absent header
  \<^verbatim>\<open>HelperFunctions.h\<close>. A point has a 3D position (the optional normal and colour
  attributes play no part in the handler).
\<close>

type_synonym Point = "real \<times> real \<times> real"

text \<open>
  Modelled from the spec: \<^verbatim>\<open>PointCloud\<close>, absent as above, is an ordered sequence of
  points, and a value rather than a reference.
\<close>

type_synonym PointCloud = "Point list"

text \<open>
  Modelled from the spec: the type \<^verbatim>\<open>PCLMesh\<close> is declared in the same absent header.
  A mesh is vertices plus triangular faces; the explicitly empty mesh has no face.
\<close>

record PCLMesh =
  vertices :: "Point list"
  polygons :: "(nat \<times> nat \<times> nat) list"

text \<open>
  Modelled from the spec: the occlusion map of the absent \<^verbatim>\<open>OcclusionRepair\<close> is a set
  of boundary loops of a mesh, each a chain of vertex indices.
\<close>

type_synonym OcclusionMap = "nat list list"

text \<open>
  Modelled from the spec: the request of the service type \<^verbatim>\<open>FixOcclusion\<close>, which is
  generated from an absent service description. The trigger is a parameterless request.
\<close>

type_synonym Request = unit

text \<open>
  Modelled from the spec: the response of the same service type,
  \<^verbatim>\<open>{success: boolean}\<close>. The handler writes the field \<^verbatim>\<open>success\<close> on lines 86 and 91.
\<close>

record Response =
  success :: bool

text \<open>
  The mutable fields of the class (source lines 96 to 115). The ROS handles
  (\<^verbatim>\<open>m_node_handler\<close>, \<^verbatim>\<open>m_fix_occlusions_service\<close>, \<^verbatim>\<open>m_mesh_publisher\<close>) are never
  touched by the handler; the three collaborator objects are the record
  \<open>collaborators\<close> below.
\<close>

record object_reconstruction_node =
  m_output_directory :: string
  m_object_candidates :: "PointCloud list"
  m_resulting_cloud :: PointCloud
  m_operating_mesh :: PCLMesh

text \<open>
  Modelled from the spec: the repair-mode flag of the configuration surface. The source
  has no such flag.
\<close>

datatype RepairMode = Skip | DetectOnly | DetectAndRepair

text \<open>
  Modelled from the spec: the configuration surface (output directory, frame count to
  accumulate, plane-removal inlier threshold and iteration cap, cluster distance and
  size thresholds, mesh minimum point count, occlusion hole-size threshold, repair
  mode). The source has no configuration object.
\<close>

record Configuration =
  output_directory :: string
  frame_count :: int
  plane_inlier_threshold :: real
  plane_iteration_cap :: nat
  cluster_distance :: real
  cluster_min_size :: nat
  cluster_max_size :: nat
  mesh_min_points :: nat
  hole_size_threshold :: real
  repair_mode :: RepairMode

text \<open>
  Modelled from the spec: \<^verbatim>\<open>HelperFunctions::SetOutputDirectory\<close> is absent from the
  sources. The output directory is ambient state set once at startup; it is the one
  configured value the node reads.
\<close>

definition SetOutputDirectory :: "Configuration \<Rightarrow> string" where
  "SetOutputDirectory cfg = output_directory cfg"

text \<open>
  The constructor (source lines 34 to 48): it sets the output directory and
  default-constructs the other fields (an empty vector, an empty cloud, an empty mesh).
  Advertising the service and the marker topic has no effect on the fields.
\<close>

definition object_reconstruction_node :: "Configuration \<Rightarrow> object_reconstruction_node" where
  "object_reconstruction_node cfg =
     \<lparr> m_output_directory = SetOutputDirectory cfg,
       m_object_candidates = [],
       m_resulting_cloud = [],
       m_operating_mesh = \<lparr> vertices = [], polygons = [] \<rparr> \<rparr>"

subsection \<open>Collaborators and the call trace\<close>

text \<open>
  Modelled from the spec: the one error kind that leaves a stage of the absent
  collaborators as a failure. (\<open>NoCandidatesFound\<close> is the empty sequence,
  \<open>DegenerateCandidate\<close> the empty mesh; \<open>UnrepairableOcclusion\<close> belongs to a stage the
  handler never calls.)
\<close>

datatype error = InsufficientFrames

text \<open>
  Modelled from the spec: the operations of the absent classes
  \<^verbatim>\<open>PointCloudAccumulator\<close>, \<^verbatim>\<open>ObjectCandidateExtractor\<close>, \<^verbatim>\<open>HelperFunctions\<close> and
  \<^verbatim>\<open>OcclusionRepair\<close> that return a value; the source fixes their names, arguments and
  result types (\<^verbatim>\<open>Repair\<close> is named by the spec only). The accumulator returns a cloud
  or fails with \<open>InsufficientFrames\<close>: \<^verbatim>\<open>AccumulatePointClouds\<close> returns a
  \<^verbatim>\<open>PointCloud\<close> by value, so the only channel a failure has is a C++ exception, and the
  handler has no \<^verbatim>\<open>try\<close> block, so an exception leaves the handler at once. The
  extractor returns a possibly empty sequence and never fails; the mesh builder returns
  a mesh, the empty one for a degenerate candidate, and never fails.
\<close>

record collaborators =
  AccumulatePointClouds :: "int \<Rightarrow> error + PointCloud"
  ExtractCandidateObjects :: "string \<Rightarrow> PointCloud \<Rightarrow> PointCloud list"
  ConvertCloudToMesh :: "string \<Rightarrow> PointCloud \<Rightarrow> PCLMesh"
  DetectOcclusion :: "PCLMesh \<Rightarrow> string \<Rightarrow> OcclusionMap"
  Repair :: "PCLMesh \<Rightarrow> OcclusionMap \<Rightarrow> PCLMesh"

text \<open>One constructor for each collaborator operation a run can invoke.\<close>

datatype call =
    Call_AccumulatePointClouds int
  | Call_WriteToPCD string PointCloud
  | Call_ExtractCandidateObjects string PointCloud
  | Call_PublishObjectCandidates "PointCloud list"
  | Call_WriteMultipleToPCD string "PointCloud list"
  | Call_ConvertCloudToMesh string PointCloud
  | Call_DetectOcclusion PCLMesh string
  | Call_Repair PCLMesh OcclusionMap

text \<open>
  What a call of the handler leaves behind: the value it returned (or the failure that
  left it), the response object, the node, and the trace of collaborator calls.
\<close>

record run =
  returned :: "error + bool"
  response :: Response
  node :: object_reconstruction_node
  calls :: "call list"

subsection \<open>\<^verbatim>\<open>std::to_string\<close> on an \<^verbatim>\<open>int\<close>\<close>

definition digit :: "nat \<Rightarrow> char" where
  "digit d = ''0123456789'' ! d"

function digits :: "nat \<Rightarrow> string" where
  "digits n = (if n < 10 then [digit n] else digits (n div 10) @ [digit (n mod 10)])"
  by pat_completeness auto
termination
  by (relation "measure (\<lambda>n. n)") auto

declare digits.simps [simp del]

definition to_string :: "int \<Rightarrow> string" where
  "to_string i = (if i < 0 then CHR ''-'' # digits (nat (- i)) else digits (nat i))"

text \<open>Reading a decimal numeral back, to state that \<open>digits\<close> writes the number.\<close>

definition digit_value :: "char \<Rightarrow> nat" where
  "digit_value c = of_char c - 48"

definition decimal :: "string \<Rightarrow> nat" where
  "decimal s = foldl (\<lambda>a c. 10 * a + digit_value c) 0 s"

text \<open>
  A decimal numeral, described without \<open>digits\<close>: a non-empty string of the characters
  \<open>0\<close> to \<open>9\<close> with no leading zero. Together with its value \<open>decimal\<close> this determines
  the string (lemma \<open>decimal_numeral_unique\<close> below).
\<close>

definition is_digit :: "char \<Rightarrow> bool" where
  "is_digit c = (48 \<le> (of_char c :: nat) \<and> (of_char c :: nat) \<le> 57)"

definition is_decimal_numeral :: "string \<Rightarrow> bool" where
  "is_decimal_numeral s = (s \<noteq> [] \<and> list_all is_digit s \<and> (length s = 1 \<or> hd s \<noteq> CHR ''0''))"

subsection \<open>The handler\<close>

text \<open>
  The loop of source lines 78 to 84, with its counter \<open>i\<close>. Each round names the
  artifact, builds the mesh of candidate \<open>i\<close> and stores it in the single field
  \<open>m_operating_mesh\<close>. The call of \<^verbatim>\<open>DetectOcclusion\<close> on line 83 is commented out in
  the source, so the round logs no such call. The counter is an \<^verbatim>\<open>int\<close> that starts
  at 0 and is compared with the vector's size; the model covers candidate sequences
  shorter than \<open>2 ^ 31\<close>, where the counter cannot overflow.
\<close>

function FixOcclusions_loop ::
  "collaborators \<Rightarrow> int \<Rightarrow> object_reconstruction_node \<Rightarrow> call list
     \<Rightarrow> object_reconstruction_node \<times> call list" where
  "FixOcclusions_loop env i self trace =
     (if i < int (length (m_object_candidates self)) then
        let candidate_name = m_output_directory self @ ''03-ObjectCandidate-'' @ to_string i;
            mesh = ConvertCloudToMesh env candidate_name (m_object_candidates self ! nat i)
        in FixOcclusions_loop env (i + 1) (self\<lparr>m_operating_mesh := mesh\<rparr>)
             (trace @ [Call_ConvertCloudToMesh candidate_name (m_object_candidates self ! nat i)])
      else (self, trace))"
  by pat_completeness auto
termination
  by (relation "measure (\<lambda>(env, i, self, trace). nat (int (length (m_object_candidates self)) - i))")
     auto

declare FixOcclusions_loop.simps [simp del]

text \<open>
  The handler, source lines 60 to 94, statement by statement. The request is never
  read. A failed accumulation leaves the handler before any field or the response is
  written.
\<close>

definition FixOcclusions ::
  "collaborators \<Rightarrow> object_reconstruction_node \<Rightarrow> Request \<Rightarrow> Response \<Rightarrow> run" where
  "FixOcclusions env self request resp =
     (let candidate_name = m_output_directory self @ ''01-AccumulatedPointCloud'';
          trace = [Call_AccumulatePointClouds 1]
      in case AccumulatePointClouds env 1 of
           Inl e \<Rightarrow> \<lparr> returned = Inl e, response = resp, node = self, calls = trace \<rparr>
         | Inr cloud \<Rightarrow>
             let self = self\<lparr>m_resulting_cloud := cloud\<rparr>;
                 trace = trace @ [Call_WriteToPCD candidate_name (m_resulting_cloud self)];
                 candidate_name = m_output_directory self @ ''00-Debugging'';
                 trace = trace @ [Call_ExtractCandidateObjects candidate_name (m_resulting_cloud self)];
                 self = self\<lparr>m_object_candidates :=
                          ExtractCandidateObjects env candidate_name (m_resulting_cloud self)\<rparr>
             in if length (m_object_candidates self) \<noteq> 0 then
                  let trace = trace @ [Call_PublishObjectCandidates (m_object_candidates self)];
                      candidate_name = m_output_directory self @ ''02-ObjectCandidates'';
                      trace = trace @ [Call_WriteMultipleToPCD candidate_name (m_object_candidates self)];
                      (self, trace) = FixOcclusions_loop env 0 self trace;
                      resp = resp\<lparr>success := True\<rparr>
                  in \<lparr> returned = Inr (success resp), response = resp, node = self, calls = trace \<rparr>
                else
                  let resp = resp\<lparr>success := False\<rparr>
                  in \<lparr> returned = Inr (success resp), response = resp, node = self, calls = trace \<rparr>)"

subsection \<open>Reading a run\<close>

text \<open>The stages of a call, by the collaborator operation invoked.\<close>

fun is_extraction_call :: "call \<Rightarrow> bool" where
  "is_extraction_call (Call_ExtractCandidateObjects n c) = True"
| "is_extraction_call (Call_PublishObjectCandidates cs) = True"
| "is_extraction_call c = False"

fun is_meshing_call :: "call \<Rightarrow> bool" where
  "is_meshing_call (Call_ConvertCloudToMesh n c) = True"
| "is_meshing_call c = False"

fun is_occlusion_call :: "call \<Rightarrow> bool" where
  "is_occlusion_call (Call_DetectOcclusion m n) = True"
| "is_occlusion_call (Call_Repair m om) = True"
| "is_occlusion_call c = False"

text \<open>The frame counts a run asked the accumulator for, in order.\<close>

fun requested_frames :: "call list \<Rightarrow> int list" where
  "requested_frames [] = []"
| "requested_frames (Call_AccumulatePointClouds n # cs) = n # requested_frames cs"
| "requested_frames (c # cs) = requested_frames cs"

text \<open>
  The artifacts a run wrote, by the operation that wrote them: a single cloud
  (\<^verbatim>\<open>WriteToPCD\<close>) and a set of clouds (\<^verbatim>\<open>WriteMultipleToPCD\<close>).
\<close>

fun is_WriteToPCD_call :: "call \<Rightarrow> bool" where
  "is_WriteToPCD_call (Call_WriteToPCD n c) = True"
| "is_WriteToPCD_call c = False"

fun is_WriteMultipleToPCD_call :: "call \<Rightarrow> bool" where
  "is_WriteMultipleToPCD_call (Call_WriteMultipleToPCD n cs) = True"
| "is_WriteMultipleToPCD_call c = False"

text \<open>
  The naming rule for per-candidate artifacts in the words of the interface description,
  stated without the handler's \<open>to_string\<close>: \<open>name\<close> is the output directory, then the
  label \<open>03-ObjectCandidate-\<close>, then the decimal numeral whose value is the candidate
  index \<open>i\<close>. A call is the artifact of candidate \<open>i\<close> of the sequence \<open>cs\<close> when it hands
  the mesh builder that candidate under such a name.
\<close>

definition is_candidate_artifact_name :: "string \<Rightarrow> string \<Rightarrow> nat \<Rightarrow> bool" where
  "is_candidate_artifact_name dir name i =
     (take (length (dir @ ''03-ObjectCandidate-'')) name = dir @ ''03-ObjectCandidate-''
      \<and> is_decimal_numeral (drop (length (dir @ ''03-ObjectCandidate-'')) name)
      \<and> decimal (drop (length (dir @ ''03-ObjectCandidate-'')) name) = i)"

fun is_candidate_artifact :: "string \<Rightarrow> PointCloud list \<Rightarrow> call \<Rightarrow> nat \<Rightarrow> bool" where
  "is_candidate_artifact dir cs (Call_ConvertCloudToMesh name c) i =
     (c = cs ! i \<and> is_candidate_artifact_name dir name i)"
| "is_candidate_artifact dir cs c i = False"

text \<open>The meshes a run built, in order: one for each call of the mesh builder.\<close>

fun built_meshes :: "collaborators \<Rightarrow> call list \<Rightarrow> PCLMesh list" where
  "built_meshes env [] = []"
| "built_meshes env (Call_ConvertCloudToMesh n c # cs) =
     ConvertCloudToMesh env n c # built_meshes env cs"
| "built_meshes env (c # cs) = built_meshes env cs"

text \<open>
  Modelled from the spec: the per-candidate outcome, which the source does not compute.
  A degenerate candidate yields an explicitly empty mesh (zero faces) and its result is
  recorded as failed.
\<close>

definition candidate_failed :: "PCLMesh \<Rightarrow> bool" where
  "candidate_failed mesh = (polygons mesh = [])"

text \<open>
  Modelled from the spec: the repaired mesh of a candidate's reconstruction result,
  which the source does not compute. It is the value of \<^verbatim>\<open>Repair\<close> on the candidate's
  mesh, and is absent when the run never invoked \<^verbatim>\<open>Repair\<close> on that mesh.
\<close>

fun repaired_mesh :: "collaborators \<Rightarrow> call list \<Rightarrow> PCLMesh \<Rightarrow> PCLMesh option" where
  "repaired_mesh env [] mesh = None"
| "repaired_mesh env (Call_Repair m om # cs) mesh =
     (if m = mesh then Some (Repair env m om) else repaired_mesh env cs mesh)"
| "repaired_mesh env (c # cs) mesh = repaired_mesh env cs mesh"

text \<open>
  Modelled from the spec: a frame, the input of the absent accumulator, is a single
  sensor capture: a cloud with its acquisition pose, a rigid transform to the reference
  frame.
\<close>

record Frame =
  frame_cloud :: PointCloud
  frame_pose :: "Point \<Rightarrow> Point"

text \<open>
  Modelled from the spec: \<^verbatim>\<open>AccumulatePointClouds\<close> is absent from the sources.
  Accumulation maps the first \<open>frameCount\<close> frames of the stream into the reference
  frame and concatenates them, and fails with \<open>InsufficientFrames\<close> when the stream
  holds fewer frames than requested.
\<close>

definition Accumulate :: "Frame list \<Rightarrow> int \<Rightarrow> error + PointCloud" where
  "Accumulate stream frameCount =
     (if int (length stream) < frameCount then Inl InsufficientFrames
      else Inr (concat (map (\<lambda>f. map (frame_pose f) (frame_cloud f)) (take (nat frameCount) stream))))"

subsection \<open>A sample scene\<close>

text \<open>
  Concrete collaborators on which the theorems below are exercised: a stream of frames
  read by the accumulator above, an extractor that returns a given candidate sequence,
  and a mesh builder that yields the empty mesh for a candidate of fewer than three
  points and one triangle otherwise.
\<close>

definition sample_mesh :: "string \<Rightarrow> PointCloud \<Rightarrow> PCLMesh" where
  "sample_mesh candidate_name c =
     (if length c < 3 then \<lparr> vertices = [], polygons = [] \<rparr>
      else \<lparr> vertices = c, polygons = [(0, 1, 2)] \<rparr>)"

definition sample_collaborators :: "Frame list \<Rightarrow> PointCloud list \<Rightarrow> collaborators" where
  "sample_collaborators stream candidates =
     \<lparr> AccumulatePointClouds = Accumulate stream,
       ExtractCandidateObjects = (\<lambda>candidate_name c. candidates),
       ConvertCloudToMesh = sample_mesh,
       DetectOcclusion = (\<lambda>mesh candidate_name. []),
       Repair = (\<lambda>mesh om. mesh) \<rparr>"

definition sample_frame :: Frame where
  "sample_frame = \<lparr> frame_cloud = [(0, 0, 0), (1, 0, 0), (0, 1, 0), (5, 5, 5)], frame_pose = (\<lambda>p. p) \<rparr>"

definition triangle :: PointCloud where
  "triangle = [(0, 0, 0), (1, 0, 0), (0, 1, 0)]"

definition speck :: PointCloud where
  "speck = [(5, 5, 5)]"

definition sample_configuration :: Configuration where
  "sample_configuration =
     \<lparr> output_directory = ''/tmp/'',
       frame_count = 3,
       plane_inlier_threshold = 1,
       plane_iteration_cap = 100,
       cluster_distance = 1,
       cluster_min_size = 1,
       cluster_max_size = 1000,
       mesh_min_points = 3,
       hole_size_threshold = 1,
       repair_mode = DetectAndRepair \<rparr>"

section \<open>Properties\<close>

subsection \<open>Decimal numerals\<close>

lemma digit_value_digit: "d < 10 \<Longrightarrow> digit_value (digit d) = d"
proof -
  assume "d < 10"
  then have "d = 0 \<or> d = 1 \<or> d = 2 \<or> d = 3 \<or> d = 4 \<or> d = 5 \<or> d = 6 \<or> d = 7
    \<or> d = 8 \<or> d = 9"
    by presburger
  then show ?thesis
    by (auto simp add: digit_def digit_value_def)
qed

lemma decimal_digits: "decimal (digits n) = n"
proof (induction n rule: digits.induct)
  case (1 n)
  show ?case
  proof (cases "n < 10")
    case True
    then show ?thesis
      by (subst digits.simps) (simp add: decimal_def digit_value_digit)
  next
    case False
    have "decimal (digits (n div 10) @ [digit (n mod 10)]) = 10 * (n div 10) + n mod 10"
      using "1.IH" [OF False] by (simp add: decimal_def digit_value_digit)
    with False show ?thesis
      by (subst digits.simps) simp
  qed
qed

text \<open>Distinct candidate indices get distinct numerals, hence distinct artifact names.\<close>

lemma to_string_inj: "0 \<le> i \<Longrightarrow> 0 \<le> j \<Longrightarrow> to_string i = to_string j \<Longrightarrow> i = j"
proof -
  assume i: "0 \<le> i" and j: "0 \<le> j" and eq: "to_string i = to_string j"
  from eq i j have "digits (nat i) = digits (nat j)" by (simp add: to_string_def)
  then have "decimal (digits (nat i)) = decimal (digits (nat j))" by simp
  then have "nat i = nat j" by (simp add: decimal_digits)
  with i j show ?thesis by simp
qed

lemma to_string_examples:
  "to_string 0 = ''0''" "to_string 7 = ''7''" "to_string 12 = ''12''" "to_string 305 = ''305''"
  "to_string (- 4) = ''-4''"
  by (simp_all add: to_string_def digits.simps digit_def)

text \<open>The numeral \<open>digits\<close> writes is a decimal numeral in the sense above.\<close>

lemma digit_cases:
  assumes "(d::nat) < 10"
  shows "d = 0 \<or> d = 1 \<or> d = 2 \<or> d = 3 \<or> d = 4 \<or> d = 5 \<or> d = 6 \<or> d = 7 \<or> d = 8 \<or> d = 9"
  using assms by presburger

lemma is_digit_digit: "d < 10 \<Longrightarrow> is_digit (digit d)"
  using digit_cases [of d] by (auto simp add: digit_def is_digit_def)

lemma digit_nonzero: "0 < d \<Longrightarrow> d < 10 \<Longrightarrow> digit d \<noteq> CHR ''0''"
  using digit_cases [of d] by (auto simp add: digit_def)

lemma digits_shape:
  "digits n \<noteq> [] \<and> list_all is_digit (digits n) \<and> (0 < n \<longrightarrow> hd (digits n) \<noteq> CHR ''0'')"
proof (induction n rule: digits.induct)
  case (1 n)
  show ?case
  proof (cases "n < 10")
    case True
    then show ?thesis
      by (subst (1 2 3) digits.simps) (simp add: is_digit_digit digit_nonzero)
  next
    case False
    then have pos: "0 < n div 10" by simp
    from "1.IH" [OF False] pos False show ?thesis
      by (subst (1 2 3) digits.simps) (simp add: is_digit_digit)
  qed
qed

lemma is_decimal_numeral_digits: "is_decimal_numeral (digits n)"
proof (cases "n = 0")
  case True
  then show ?thesis
    by (simp add: is_decimal_numeral_def digits.simps is_digit_digit)
next
  case False
  with digits_shape [of n] show ?thesis
    by (simp add: is_decimal_numeral_def)
qed

text \<open>The name the loop builds for candidate \<open>i\<close> follows the naming rule.\<close>

lemma is_candidate_artifact_name_to_string:
  "is_candidate_artifact_name dir (dir @ ''03-ObjectCandidate-'' @ to_string (int i)) i"
  by (simp add: is_candidate_artifact_name_def to_string_def is_decimal_numeral_digits
        decimal_digits)

text \<open>A decimal numeral is determined by its value.\<close>

lemma of_char_digit: "d < 10 \<Longrightarrow> (of_char (digit d) :: nat) = 48 + d"
  using digit_cases [of d] by (auto simp add: digit_def)

lemma digit_digit_value: "is_digit c \<Longrightarrow> digit_value c < 10 \<and> digit (digit_value c) = c"
proof -
  assume d: "is_digit c"
  then have lt: "digit_value c < 10" by (auto simp add: is_digit_def digit_value_def)
  have "(of_char c :: nat) = 48 + digit_value c"
    using d by (auto simp add: is_digit_def digit_value_def)
  with of_char_digit [OF lt] have "(of_char (digit (digit_value c)) :: nat) = of_char c"
    by simp
  then have "digit (digit_value c) = c" by (rule of_char_eqI)
  with lt show ?thesis by simp
qed

lemma foldl_decimal_ge: "a \<le> foldl (\<lambda>a c. 10 * a + digit_value c) a s"
proof (induction s arbitrary: a)
  case Nil
  show ?case by simp
next
  case (Cons x xs)
  have "a \<le> 10 * a + digit_value x" by simp
  also have "\<dots> \<le> foldl (\<lambda>a c. 10 * a + digit_value c) (10 * a + digit_value x) xs"
    by (rule Cons.IH)
  finally show ?case by simp
qed

lemma decimal_positive:
  assumes "s \<noteq> []" and "is_digit (hd s)" and "hd s \<noteq> CHR ''0''"
  shows "0 < decimal s"
proof -
  from assms(1) obtain c cs where s: "s = c # cs" by (cases s) auto
  with assms have c: "is_digit c" "c \<noteq> CHR ''0''" by simp_all
  have "digit_value c \<noteq> 0"
  proof
    assume "digit_value c = 0"
    with digit_digit_value [OF c(1)] have "c = digit 0" by simp
    with c(2) show False by (simp add: digit_def)
  qed
  then have "0 < digit_value c" by simp
  also have "digit_value c \<le> decimal s"
    using foldl_decimal_ge [of "digit_value c" cs] by (simp add: decimal_def s)
  finally show ?thesis .
qed

lemma digits_decimal: "is_decimal_numeral s \<Longrightarrow> digits (decimal s) = s"
proof (induction s rule: rev_induct)
  case Nil
  then show ?case by (simp add: is_decimal_numeral_def)
next
  case (snoc c xs)
  from snoc.prems have c: "is_digit c" by (simp add: is_decimal_numeral_def)
  note dv = digit_digit_value [OF c]
  have dec: "decimal (xs @ [c]) = 10 * decimal xs + digit_value c"
    by (simp add: decimal_def)
  show ?case
  proof (cases "xs = []")
    case True
    with dv show ?thesis
      by (subst digits.simps) (simp add: decimal_def)
  next
    case False
    with snoc.prems have xs: "is_decimal_numeral xs" "hd xs \<noteq> CHR ''0''" "is_digit (hd xs)"
      by (cases xs; simp add: is_decimal_numeral_def)+
    from decimal_positive [OF False xs(3) xs(2)] have pos: "0 < decimal xs" .
    from pos dv have big: "\<not> 10 * decimal xs + digit_value c < 10" by simp
    from dv have dm: "(10 * decimal xs + digit_value c) div 10 = decimal xs"
      "(10 * decimal xs + digit_value c) mod 10 = digit_value c" by simp_all
    from snoc.IH [OF xs(1)] big dv show ?thesis
      unfolding dec by (subst digits.simps) (simp add: dm)
  qed
qed

lemma decimal_numeral_unique:
  "is_decimal_numeral s \<Longrightarrow> is_decimal_numeral t \<Longrightarrow> decimal s = decimal t \<Longrightarrow> s = t"
  by (metis digits_decimal)

subsection \<open>The loop\<close>

text \<open>The loop writes no field but \<open>m_operating_mesh\<close>.\<close>

lemma loop_unchanged:
  "m_object_candidates (fst (FixOcclusions_loop env i self tr)) = m_object_candidates self
   \<and> m_output_directory (fst (FixOcclusions_loop env i self tr)) = m_output_directory self
   \<and> m_resulting_cloud (fst (FixOcclusions_loop env i self tr)) = m_resulting_cloud self"
proof (induction env i self tr rule: FixOcclusions_loop.induct)
  case (1 env i self tr)
  show ?case
  proof (cases "i < int (length (m_object_candidates self))")
    case True
    with "1" show ?thesis
      by (subst (1 2 3) FixOcclusions_loop.simps) (simp add: Let_def)
  next
    case False
    then show ?thesis
      by (subst (1 2 3) FixOcclusions_loop.simps) simp
  qed
qed

text \<open>The calls of the loop: one mesh-builder call for each remaining index, in order.\<close>

lemma loop_calls:
  "0 \<le> i \<Longrightarrow>
   snd (FixOcclusions_loop env i self tr) =
     tr @ map (\<lambda>k. Call_ConvertCloudToMesh
                     (m_output_directory self @ ''03-ObjectCandidate-'' @ to_string (int k))
                     (m_object_candidates self ! k))
              [nat i..<length (m_object_candidates self)]"
proof (induction env i self tr rule: FixOcclusions_loop.induct)
  case (1 env i self tr)
  show ?case
  proof (cases "i < int (length (m_object_candidates self))")
    case True
    with "1.prems" have lt: "nat i < length (m_object_candidates self)" by simp
    have nxt: "nat (i + 1) = Suc (nat i)" using "1.prems" by simp
    have ii: "int (nat i) = i" using "1.prems" by simp
    from "1.IH" [OF True refl refl] "1.prems" True show ?thesis
      by (subst FixOcclusions_loop.simps) (simp add: Let_def nxt ii upt_conv_Cons [OF lt])
  next
    case False
    then show ?thesis
      by (subst FixOcclusions_loop.simps) simp
  qed
qed

text \<open>The node after the loop: only the mesh of the last candidate is kept.\<close>

lemma loop_node:
  "0 \<le> i \<Longrightarrow>
   fst (FixOcclusions_loop env i self tr) =
     (if i < int (length (m_object_candidates self)) then
        self\<lparr>m_operating_mesh :=
          ConvertCloudToMesh env
            (m_output_directory self @ ''03-ObjectCandidate-''
               @ to_string (int (length (m_object_candidates self)) - 1))
            (last (m_object_candidates self))\<rparr>
      else self)"
proof (induction env i self tr rule: FixOcclusions_loop.induct)
  case (1 env i self tr)
  show ?case
  proof (cases "i < int (length (m_object_candidates self))")
    case True
    show ?thesis
    proof (cases "i + 1 < int (length (m_object_candidates self))")
      case more: True
      from "1.IH" [OF True refl refl] "1.prems" True more show ?thesis
        by (subst FixOcclusions_loop.simps) (simp add: Let_def)
    next
      case nomore: False
      with True have eq: "i = int (length (m_object_candidates self)) - 1" by simp
      have ne: "m_object_candidates self \<noteq> []" using True "1.prems" by auto
      have "nat i = length (m_object_candidates self) - 1" using eq by arith
      then have "m_object_candidates self ! nat i = last (m_object_candidates self)"
        using ne by (simp add: last_conv_nth)
      with "1.IH" [OF True refl refl] "1.prems" True nomore eq show ?thesis
        by (subst FixOcclusions_loop.simps) (simp add: Let_def)
    qed
  next
    case False
    then show ?thesis
      by (subst FixOcclusions_loop.simps) simp
  qed
qed


subsection \<open>The three outcomes of the handler\<close>

text \<open>A failed accumulation: nothing but the accumulator was called.\<close>

lemma FixOcclusions_failed:
  assumes "AccumulatePointClouds env 1 = Inl e"
  shows "FixOcclusions env self req resp =
           \<lparr> returned = Inl e, response = resp, node = self,
             calls = [Call_AccumulatePointClouds 1] \<rparr>"
  using assms by (simp add: FixOcclusions_def)

text \<open>No candidates: the cloud was written and the extractor ran, nothing else.\<close>

lemma FixOcclusions_empty:
  assumes "AccumulatePointClouds env 1 = Inr cloud"
    and "ExtractCandidateObjects env (m_output_directory self @ ''00-Debugging'') cloud = []"
  shows "FixOcclusions env self req resp =
           \<lparr> returned = Inr False, response = resp\<lparr>success := False\<rparr>,
             node = self\<lparr>m_resulting_cloud := cloud, m_object_candidates := []\<rparr>,
             calls = [Call_AccumulatePointClouds 1,
                      Call_WriteToPCD (m_output_directory self @ ''01-AccumulatedPointCloud'') cloud,
                      Call_ExtractCandidateObjects (m_output_directory self @ ''00-Debugging'') cloud] \<rparr>"
  using assms by (simp add: FixOcclusions_def)

text \<open>At least one candidate: the full run.\<close>

lemma FixOcclusions_candidates:
  assumes "AccumulatePointClouds env 1 = Inr cloud"
    and "ExtractCandidateObjects env (m_output_directory self @ ''00-Debugging'') cloud = cs"
    and "cs \<noteq> []"
  shows "FixOcclusions env self req resp =
           \<lparr> returned = Inr True, response = resp\<lparr>success := True\<rparr>,
             node = self\<lparr>m_resulting_cloud := cloud, m_object_candidates := cs,
                      m_operating_mesh :=
                        ConvertCloudToMesh env
                          (m_output_directory self @ ''03-ObjectCandidate-''
                             @ to_string (int (length cs) - 1))
                          (last cs)\<rparr>,
             calls = [Call_AccumulatePointClouds 1,
                      Call_WriteToPCD (m_output_directory self @ ''01-AccumulatedPointCloud'') cloud,
                      Call_ExtractCandidateObjects (m_output_directory self @ ''00-Debugging'') cloud,
                      Call_PublishObjectCandidates cs,
                      Call_WriteMultipleToPCD (m_output_directory self @ ''02-ObjectCandidates'') cs]
                     @ map (\<lambda>k. Call_ConvertCloudToMesh
                                   (m_output_directory self @ ''03-ObjectCandidate-'' @ to_string (int k))
                                   (cs ! k))
                           [0..<length cs] \<rparr>"
proof -
  have pos: "(0::int) < int (length cs)" using assms(3) by simp
  show ?thesis
    using assms pos
    by (simp add: FixOcclusions_def Let_def case_prod_beta loop_calls loop_node)
qed

subsection \<open>Reading the calls of the loop\<close>

lemma mesh_calls_filters:
  "filter is_meshing_call (map (\<lambda>k. Call_ConvertCloudToMesh (n k) (c k)) xs)
     = map (\<lambda>k. Call_ConvertCloudToMesh (n k) (c k)) xs"
  "filter is_occlusion_call (map (\<lambda>k. Call_ConvertCloudToMesh (n k) (c k)) xs) = []"
  "filter is_extraction_call (map (\<lambda>k. Call_ConvertCloudToMesh (n k) (c k)) xs) = []"
  by (induction xs) simp_all

lemma mesh_calls_names:
  "filter is_WriteToPCD_call (map (\<lambda>k. Call_ConvertCloudToMesh (n k) (c k)) xs) = []"
  "filter is_WriteMultipleToPCD_call (map (\<lambda>k. Call_ConvertCloudToMesh (n k) (c k)) xs) = []"
  "requested_frames (map (\<lambda>k. Call_ConvertCloudToMesh (n k) (c k)) xs) = []"
  by (induction xs) simp_all

lemma mesh_calls_meshes:
  "built_meshes env (map (\<lambda>k. Call_ConvertCloudToMesh (n k) (c k)) xs)
     = map (\<lambda>k. ConvertCloudToMesh env (n k) (c k)) xs"
  "repaired_mesh env (map (\<lambda>k. Call_ConvertCloudToMesh (n k) (c k)) xs) mesh = None"
  by (induction xs) simp_all

text \<open>The equations that evaluate a run on the sample scene.\<close>

lemmas run_eval =
  FixOcclusions_def sample_collaborators_def Accumulate_def sample_frame_def speck_def
  triangle_def object_reconstruction_node_def SetOutputDirectory_def sample_configuration_def
  FixOcclusions_loop.simps Let_def to_string_def digits.simps digit_def sample_mesh_def
  candidate_failed_def

subsection \<open>The outcomes, as a case distinction\<close>

lemma run_cases:
  obtains (failed) e where "AccumulatePointClouds env 1 = Inl e"
  | (empty) cloud where "AccumulatePointClouds env 1 = Inr cloud"
      "ExtractCandidateObjects env (m_output_directory self @ ''00-Debugging'') cloud = []"
  | (candidates) cloud where "AccumulatePointClouds env 1 = Inr cloud"
      "ExtractCandidateObjects env (m_output_directory self @ ''00-Debugging'') cloud \<noteq> []"
  by (cases "AccumulatePointClouds env 1") auto

section \<open>The claims\<close>

subsection \<open>C1: the outward result as a reduction of per-candidate outcomes\<close>

text \<open>
  C1 as stated asks for a faithful reduction: the success field is true exactly when at
  least one candidate reached a non-failed terminal state, that is, when not every
  candidate failed. The handler does not look at the meshes. On the sample scene with the single candidate \<open>speck\<close>, too sparse to
  mesh, every candidate failed and the success field is nevertheless true.
\<close>

theorem success_is_not_a_reduction:
  "\<not> (success (response (FixOcclusions (sample_collaborators [sample_frame] [speck])
           (object_reconstruction_node sample_configuration) () \<lparr>success = False\<rparr>))
      = (\<not> list_all candidate_failed
          (built_meshes (sample_collaborators [sample_frame] [speck])
             (calls (FixOcclusions (sample_collaborators [sample_frame] [speck])
                (object_reconstruction_node sample_configuration) () \<lparr>success = False\<rparr>)))))"
  by (simp add: run_eval)

text \<open>
  C1, amended: for every run that reaches the per-candidate stage (the accumulation
  returned a cloud and the extractor returned a non-empty sequence) the success field of
  the response is true, whatever meshes the mesh builder returns, so also when every
  candidate failed.
\<close>

theorem success_when_candidates_nonempty:
  assumes "AccumulatePointClouds env 1 = Inr cloud"
    and "ExtractCandidateObjects env (m_output_directory self @ ''00-Debugging'') cloud \<noteq> []"
  shows "success (response (FixOcclusions env self req resp)) = True"
  using FixOcclusions_candidates [OF assms(1) refl assms(2)] by simp

theorem success_when_candidates_nonempty_witness:
  "AccumulatePointClouds (sample_collaborators [sample_frame] [speck]) 1
     = Inr (frame_cloud sample_frame)
   \<and> ExtractCandidateObjects (sample_collaborators [sample_frame] [speck])
       (m_output_directory (object_reconstruction_node sample_configuration) @ ''00-Debugging'')
       (frame_cloud sample_frame) \<noteq> []
   \<and> list_all candidate_failed
       (built_meshes (sample_collaborators [sample_frame] [speck])
          (calls (FixOcclusions (sample_collaborators [sample_frame] [speck])
             (object_reconstruction_node sample_configuration) () \<lparr>success = False\<rparr>)))
   \<and> success (response (FixOcclusions (sample_collaborators [sample_frame] [speck])
         (object_reconstruction_node sample_configuration) () \<lparr>success = False\<rparr>)) = True"
proof -
  have acc: "AccumulatePointClouds (sample_collaborators [sample_frame] [speck]) 1
     = Inr (frame_cloud sample_frame)"
    by (simp add: sample_collaborators_def Accumulate_def sample_frame_def)
  have ext: "ExtractCandidateObjects (sample_collaborators [sample_frame] [speck])
       (m_output_directory (object_reconstruction_node sample_configuration) @ ''00-Debugging'')
       (frame_cloud sample_frame) \<noteq> []"
    by (simp add: sample_collaborators_def)
  have failed: "list_all candidate_failed
       (built_meshes (sample_collaborators [sample_frame] [speck])
          (calls (FixOcclusions (sample_collaborators [sample_frame] [speck])
             (object_reconstruction_node sample_configuration) () \<lparr>success = False\<rparr>)))"
    by (simp add: run_eval)
  from acc ext failed success_when_candidates_nonempty [OF acc ext] show ?thesis by blast
qed

subsection \<open>C2: the repair mode\<close>

text \<open>
  C2 as stated: under repair mode \<open>DetectAndRepair\<close>, a run with exactly one valid
  candidate reports success and the candidate's result holds a repaired mesh. The
  handler never reads a repair mode, and its only call into the occlusion repairer is
  commented out (source line 83). On the sample scene, configured with
  \<open>DetectAndRepair\<close> and with the single valid candidate \<open>triangle\<close>, the run reports
  success and the candidate's repaired mesh is absent.
\<close>

theorem no_repaired_mesh_under_DetectAndRepair:
  "repair_mode sample_configuration = DetectAndRepair
   \<and> \<not> candidate_failed (sample_mesh ''/tmp/03-ObjectCandidate-0'' triangle)
   \<and> \<not> (success (response (FixOcclusions (sample_collaborators [sample_frame] [triangle])
              (object_reconstruction_node sample_configuration) () \<lparr>success = False\<rparr>)) = True
        \<and> repaired_mesh (sample_collaborators [sample_frame] [triangle])
            (calls (FixOcclusions (sample_collaborators [sample_frame] [triangle])
               (object_reconstruction_node sample_configuration) () \<lparr>success = False\<rparr>))
            (sample_mesh ''/tmp/03-ObjectCandidate-0'' triangle) \<noteq> None)"
  by (simp add: run_eval)

text \<open>
  C2, amended: the handler has no repair mode. For every configuration \<open>cfg\<close>, whatever
  its repair mode, a run of a node whose output directory was set from \<open>cfg\<close> invokes
  neither occlusion detection nor repair, and no mesh has a repaired mesh; when the run
  has exactly one candidate, the success field is true and the node holds the
  candidate's mesh as the mesh builder returned it.
\<close>

theorem occlusion_stage_never_runs:
  "filter is_occlusion_call
     (calls (FixOcclusions env (self\<lparr>m_output_directory := SetOutputDirectory cfg\<rparr>) req resp)) = []
   \<and> repaired_mesh env
       (calls (FixOcclusions env (self\<lparr>m_output_directory := SetOutputDirectory cfg\<rparr>) req resp))
       mesh = None
   \<and> (AccumulatePointClouds env 1 = Inr cloud \<longrightarrow>
      ExtractCandidateObjects env (SetOutputDirectory cfg @ ''00-Debugging'') cloud = [c] \<longrightarrow>
        success (response (FixOcclusions env (self\<lparr>m_output_directory := SetOutputDirectory cfg\<rparr>) req resp)) = True
        \<and> m_operating_mesh (node (FixOcclusions env (self\<lparr>m_output_directory := SetOutputDirectory cfg\<rparr>) req resp))
            = ConvertCloudToMesh env (SetOutputDirectory cfg @ ''03-ObjectCandidate-0'') c)"
proof -
  let ?self = "self\<lparr>m_output_directory := SetOutputDirectory cfg\<rparr>"
  have general: "filter is_occlusion_call (calls (FixOcclusions env ?self req resp)) = []
    \<and> repaired_mesh env (calls (FixOcclusions env ?self req resp)) mesh = None"
  proof (cases rule: run_cases [where env = env and self = ?self])
    case (failed e)
    then show ?thesis by (simp add: FixOcclusions_failed)
  next
    case (empty cloud)
    then show ?thesis by (simp add: FixOcclusions_empty)
  next
    case (candidates cloud)
    show ?thesis
      by (simp add: FixOcclusions_candidates [OF candidates(1) refl candidates(2)]
            mesh_calls_filters mesh_calls_meshes)
  qed
  have one: "success (response (FixOcclusions env ?self req resp)) = True
        \<and> m_operating_mesh (node (FixOcclusions env ?self req resp))
            = ConvertCloudToMesh env (SetOutputDirectory cfg @ ''03-ObjectCandidate-0'') c"
    if acc: "AccumulatePointClouds env 1 = Inr cloud"
      and ext: "ExtractCandidateObjects env (SetOutputDirectory cfg @ ''00-Debugging'') cloud = [c]"
  proof -
    have ext': "ExtractCandidateObjects env (m_output_directory ?self @ ''00-Debugging'') cloud = [c]"
      using ext by simp
    show ?thesis
      by (simp add: FixOcclusions_candidates [OF acc ext'] to_string_def digits.simps digit_def)
  qed
  from general one show ?thesis by blast
qed

theorem occlusion_stage_never_runs_witness:
  "AccumulatePointClouds (sample_collaborators [sample_frame] [triangle]) 1
     = Inr (frame_cloud sample_frame)
   \<and> ExtractCandidateObjects (sample_collaborators [sample_frame] [triangle])
       (SetOutputDirectory sample_configuration @ ''00-Debugging'') (frame_cloud sample_frame)
     = [triangle]
   \<and> repair_mode sample_configuration = DetectAndRepair
   \<and> success (response (FixOcclusions (sample_collaborators [sample_frame] [triangle])
        (object_reconstruction_node sample_configuration
           \<lparr>m_output_directory := SetOutputDirectory sample_configuration\<rparr>) ()
        \<lparr>success = False\<rparr>)) = True
   \<and> m_operating_mesh (node (FixOcclusions (sample_collaborators [sample_frame] [triangle])
        (object_reconstruction_node sample_configuration
           \<lparr>m_output_directory := SetOutputDirectory sample_configuration\<rparr>) ()
        \<lparr>success = False\<rparr>))
     = \<lparr> vertices = triangle, polygons = [(0, 1, 2)] \<rparr>
   \<and> repaired_mesh (sample_collaborators [sample_frame] [triangle])
       (calls (FixOcclusions (sample_collaborators [sample_frame] [triangle])
          (object_reconstruction_node sample_configuration
             \<lparr>m_output_directory := SetOutputDirectory sample_configuration\<rparr>) ()
          \<lparr>success = False\<rparr>))
       \<lparr> vertices = triangle, polygons = [(0, 1, 2)] \<rparr> = None"
proof -
  have acc: "AccumulatePointClouds (sample_collaborators [sample_frame] [triangle]) 1
     = Inr (frame_cloud sample_frame)"
    by (simp add: sample_collaborators_def Accumulate_def sample_frame_def)
  have ext: "ExtractCandidateObjects (sample_collaborators [sample_frame] [triangle])
       (SetOutputDirectory sample_configuration @ ''00-Debugging'') (frame_cloud sample_frame)
     = [triangle]"
    by (simp add: sample_collaborators_def)
  have mode: "repair_mode sample_configuration = DetectAndRepair"
    by (simp add: sample_configuration_def)
  have mesh: "ConvertCloudToMesh (sample_collaborators [sample_frame] [triangle])
      (SetOutputDirectory sample_configuration @ ''03-ObjectCandidate-0'') triangle
     = \<lparr> vertices = triangle, polygons = [(0, 1, 2)] \<rparr>"
    by (simp add: sample_collaborators_def sample_mesh_def triangle_def)
  from acc ext mode mesh
    occlusion_stage_never_runs [where env = "sample_collaborators [sample_frame] [triangle]"
      and self = "object_reconstruction_node sample_configuration"
      and cfg = sample_configuration and req = "()" and resp = "\<lparr>success = False\<rparr>"
      and mesh = "\<lparr> vertices = triangle, polygons = [(0, 1, 2)] \<rparr>"
      and cloud = "frame_cloud sample_frame" and c = triangle]
  show ?thesis by simp
qed

subsection \<open>C3: no candidates\<close>

text \<open>
  C3: for every run in which the extractor returns the empty sequence, the handler
  returns normally with the value false, the success field of the response is false,
  and the run invoked no meshing and no occlusion stage.
\<close>

theorem no_candidates_no_meshing:
  assumes "AccumulatePointClouds env 1 = Inr cloud"
    and "ExtractCandidateObjects env (m_output_directory self @ ''00-Debugging'') cloud = []"
  shows "returned (FixOcclusions env self req resp) = Inr False
    \<and> success (response (FixOcclusions env self req resp)) = False
    \<and> filter is_meshing_call (calls (FixOcclusions env self req resp)) = []
    \<and> filter is_occlusion_call (calls (FixOcclusions env self req resp)) = []"
  by (simp add: FixOcclusions_empty [OF assms])

theorem no_candidates_no_meshing_witness:
  "AccumulatePointClouds (sample_collaborators [sample_frame] []) 1 = Inr (frame_cloud sample_frame)
   \<and> ExtractCandidateObjects (sample_collaborators [sample_frame] [])
        (m_output_directory (object_reconstruction_node sample_configuration) @ ''00-Debugging'')
        (frame_cloud sample_frame) = []
   \<and> returned (FixOcclusions (sample_collaborators [sample_frame] [])
        (object_reconstruction_node sample_configuration) () \<lparr>success = True\<rparr>) = Inr False
   \<and> success (response (FixOcclusions (sample_collaborators [sample_frame] [])
        (object_reconstruction_node sample_configuration) () \<lparr>success = True\<rparr>)) = False
   \<and> filter is_meshing_call (calls (FixOcclusions (sample_collaborators [sample_frame] [])
        (object_reconstruction_node sample_configuration) () \<lparr>success = True\<rparr>)) = []
   \<and> filter is_occlusion_call (calls (FixOcclusions (sample_collaborators [sample_frame] [])
        (object_reconstruction_node sample_configuration) () \<lparr>success = True\<rparr>)) = []"
proof -
  have acc: "AccumulatePointClouds (sample_collaborators [sample_frame] []) 1
     = Inr (frame_cloud sample_frame)"
    by (simp add: sample_collaborators_def Accumulate_def sample_frame_def)
  have ext: "ExtractCandidateObjects (sample_collaborators [sample_frame] [])
        (m_output_directory (object_reconstruction_node sample_configuration) @ ''00-Debugging'')
        (frame_cloud sample_frame) = []"
    by (simp add: sample_collaborators_def)
  from acc ext no_candidates_no_meshing [OF acc ext, of "()" "\<lparr>success = True\<rparr>"] show ?thesis by blast
qed

subsection \<open>C4: every candidate is meshed, in order\<close>

text \<open>
  C4: for every candidate sequence of length \<open>N \<ge> 1\<close> the run invokes the mesh builder
  exactly once for each index \<open>0 \<le> i < N\<close>, in order, on candidate \<open>i\<close>; and it builds
  the mesh of every candidate, whatever meshes the builder returns. A candidate that
  fails to mesh (the builder returns the empty mesh) therefore does not keep the later
  candidates from being processed. No occlusion stage runs, so none can fail.
\<close>

theorem mesh_built_for_every_candidate:
  assumes "AccumulatePointClouds env 1 = Inr cloud"
    and "ExtractCandidateObjects env (m_output_directory self @ ''00-Debugging'') cloud = cs"
    and "1 \<le> length cs"
  shows "filter is_meshing_call (calls (FixOcclusions env self req resp))
      = map (\<lambda>i. Call_ConvertCloudToMesh
                    (m_output_directory self @ ''03-ObjectCandidate-'' @ to_string (int i)) (cs ! i))
          [0..<length cs]
    \<and> built_meshes env (calls (FixOcclusions env self req resp))
      = map (\<lambda>i. ConvertCloudToMesh env
                    (m_output_directory self @ ''03-ObjectCandidate-'' @ to_string (int i)) (cs ! i))
          [0..<length cs]"
proof -
  from assms(3) have ne: "cs \<noteq> []" by auto
  show ?thesis
    by (simp add: FixOcclusions_candidates [OF assms(1) assms(2) ne]
          mesh_calls_filters mesh_calls_meshes)
qed

theorem mesh_built_for_every_candidate_witness:
  "AccumulatePointClouds (sample_collaborators [sample_frame] [speck, triangle]) 1
     = Inr (frame_cloud sample_frame)
   \<and> ExtractCandidateObjects (sample_collaborators [sample_frame] [speck, triangle])
        (m_output_directory (object_reconstruction_node sample_configuration) @ ''00-Debugging'')
        (frame_cloud sample_frame) = [speck, triangle]
   \<and> 1 \<le> length [speck, triangle]
   \<and> filter is_meshing_call (calls (FixOcclusions (sample_collaborators [sample_frame] [speck, triangle])
        (object_reconstruction_node sample_configuration) () \<lparr>success = False\<rparr>))
      = [Call_ConvertCloudToMesh ''/tmp/03-ObjectCandidate-0'' speck,
         Call_ConvertCloudToMesh ''/tmp/03-ObjectCandidate-1'' triangle]
   \<and> built_meshes (sample_collaborators [sample_frame] [speck, triangle])
        (calls (FixOcclusions (sample_collaborators [sample_frame] [speck, triangle])
           (object_reconstruction_node sample_configuration) () \<lparr>success = False\<rparr>))
      = [\<lparr> vertices = [], polygons = [] \<rparr>, \<lparr> vertices = triangle, polygons = [(0, 1, 2)] \<rparr>]"
proof -
  have acc: "AccumulatePointClouds (sample_collaborators [sample_frame] [speck, triangle]) 1
     = Inr (frame_cloud sample_frame)"
    by (simp add: sample_collaborators_def Accumulate_def sample_frame_def)
  have ext: "ExtractCandidateObjects (sample_collaborators [sample_frame] [speck, triangle])
        (m_output_directory (object_reconstruction_node sample_configuration) @ ''00-Debugging'')
        (frame_cloud sample_frame) = [speck, triangle]"
    by (simp add: sample_collaborators_def)
  have len: "1 \<le> length [speck, triangle]" by simp
  have upt: "[0..<length [speck, triangle]] = [0, 1]" by (simp add: upt_rec)
  have dir: "m_output_directory (object_reconstruction_node sample_configuration) = ''/tmp/''"
    by (simp add: object_reconstruction_node_def SetOutputDirectory_def sample_configuration_def)
  have names: "to_string 0 = ''0''" "to_string 1 = ''1''"
    by (simp_all add: to_string_def digits.simps digit_def)
  have meshes: "ConvertCloudToMesh (sample_collaborators [sample_frame] [speck, triangle])
        ''/tmp/03-ObjectCandidate-0'' speck = \<lparr> vertices = [], polygons = [] \<rparr>"
    "ConvertCloudToMesh (sample_collaborators [sample_frame] [speck, triangle])
        ''/tmp/03-ObjectCandidate-1'' triangle = \<lparr> vertices = triangle, polygons = [(0, 1, 2)] \<rparr>"
    by (simp_all add: sample_collaborators_def sample_mesh_def speck_def triangle_def)
  from mesh_built_for_every_candidate [OF acc ext len, of "()" "\<lparr>success = False\<rparr>"] acc ext meshes
  show ?thesis unfolding upt dir by (simp add: names)
qed

subsection \<open>C5: a failed accumulation\<close>




subsection \<open>C6: the number of frames requested\<close>

text \<open>
  C6 as stated: the run requests the configured frame count from the accumulator. The
  source passes the literal 1 (line 64). On the sample scene the configured frame count
  is 3, the stream holds three frames, and the run requests one.
\<close>

theorem frame_count_is_not_read:
  "frame_count sample_configuration = 3
   \<and> requested_frames (calls (FixOcclusions
        (sample_collaborators [sample_frame, sample_frame, sample_frame] [triangle])
        (object_reconstruction_node sample_configuration) () \<lparr>success = False\<rparr>))
     \<noteq> [frame_count sample_configuration]
   \<and> requested_frames (calls (FixOcclusions
        (sample_collaborators [sample_frame, sample_frame, sample_frame] [triangle])
        (object_reconstruction_node sample_configuration) () \<lparr>success = False\<rparr>))
     = [1]"
  by (simp add: run_eval)

text \<open>
  C6, amended: on every run, for every configuration \<open>cfg\<close> the node's output directory
  was set from, the handler requests exactly one frame from the accumulator: a positive
  count, but a fixed constant.
\<close>

theorem one_frame_requested:
  "requested_frames
     (calls (FixOcclusions env (self\<lparr>m_output_directory := SetOutputDirectory cfg\<rparr>) req resp))
     = [1]"
proof (cases rule: run_cases [where env = env
         and self = "self\<lparr>m_output_directory := SetOutputDirectory cfg\<rparr>"])
  case (failed e)
  then show ?thesis by (simp add: FixOcclusions_failed)
next
  case (empty cloud)
  then show ?thesis by (simp add: FixOcclusions_empty)
next
  case (candidates cloud)
  show ?thesis
    by (simp add: FixOcclusions_candidates [OF candidates(1) refl candidates(2)] mesh_calls_names)
qed

subsection \<open>C7: artifact names\<close>

text \<open>
  C7: in every run whose accumulation returned, the one cloud written is the accumulated
  cloud, under the output directory followed by \<open>01-AccumulatedPointCloud\<close>; the one set
  written, when there are candidates, is the candidate set, under the output directory
  followed by \<open>02-ObjectCandidates\<close>; and the mesh-builder calls are, in order, the
  artifacts of the candidates \<open>0, \<dots>, N - 1\<close>: call \<open>i\<close> hands over candidate \<open>i\<close> under
  the output directory followed by \<open>03-ObjectCandidate-\<close> and the decimal numeral of \<open>i\<close>.
  The numeral is stated by its value, not through the handler's \<open>to_string\<close>. (The
  extractor is handed one more name, the output directory followed by \<open>00-Debugging\<close>,
  on source line 68, as a prefix for its own dumps; the artifact of the extraction stage
  that the handler writes is the candidate set.)
\<close>

theorem artifact_names_of_run:
  assumes "AccumulatePointClouds env 1 = Inr cloud"
    and "ExtractCandidateObjects env (m_output_directory self @ ''00-Debugging'') cloud = cs"
  shows "filter is_WriteToPCD_call (calls (FixOcclusions env self req resp))
      = [Call_WriteToPCD (m_output_directory self @ ''01-AccumulatedPointCloud'') cloud]
    \<and> filter is_WriteMultipleToPCD_call (calls (FixOcclusions env self req resp))
      = (if cs = [] then []
         else [Call_WriteMultipleToPCD (m_output_directory self @ ''02-ObjectCandidates'') cs])
    \<and> list_all2 (is_candidate_artifact (m_output_directory self) cs)
        (filter is_meshing_call (calls (FixOcclusions env self req resp))) [0..<length cs]"
proof (cases "cs = []")
  case True
  with assms(2)
  have "ExtractCandidateObjects env (m_output_directory self @ ''00-Debugging'') cloud = []"
    by simp
  from FixOcclusions_empty [OF assms(1) this] True show ?thesis by simp
next
  case False
  then show ?thesis
    by (simp add: FixOcclusions_candidates [OF assms False] mesh_calls_names mesh_calls_filters
          list_all2_map1 list_all2_same is_candidate_artifact_name_to_string [simplified])
qed

theorem artifact_names_of_run_witness:
  "AccumulatePointClouds (sample_collaborators [sample_frame] [speck, triangle, speck]) 1
     = Inr (frame_cloud sample_frame)
   \<and> ExtractCandidateObjects (sample_collaborators [sample_frame] [speck, triangle, speck])
        (m_output_directory (object_reconstruction_node sample_configuration) @ ''00-Debugging'')
        (frame_cloud sample_frame) = [speck, triangle, speck]
   \<and> filter is_WriteToPCD_call
        (calls (FixOcclusions (sample_collaborators [sample_frame] [speck, triangle, speck])
           (object_reconstruction_node sample_configuration) () \<lparr>success = False\<rparr>))
      = [Call_WriteToPCD ''/tmp/01-AccumulatedPointCloud'' (frame_cloud sample_frame)]
   \<and> filter is_WriteMultipleToPCD_call
        (calls (FixOcclusions (sample_collaborators [sample_frame] [speck, triangle, speck])
           (object_reconstruction_node sample_configuration) () \<lparr>success = False\<rparr>))
      = [Call_WriteMultipleToPCD ''/tmp/02-ObjectCandidates'' [speck, triangle, speck]]
   \<and> list_all2 (is_candidate_artifact ''/tmp/'' [speck, triangle, speck])
        (filter is_meshing_call
           (calls (FixOcclusions (sample_collaborators [sample_frame] [speck, triangle, speck])
              (object_reconstruction_node sample_configuration) () \<lparr>success = False\<rparr>)))
        [0, 1, 2]
   \<and> filter is_meshing_call
        (calls (FixOcclusions (sample_collaborators [sample_frame] [speck, triangle, speck])
           (object_reconstruction_node sample_configuration) () \<lparr>success = False\<rparr>))
      = [Call_ConvertCloudToMesh ''/tmp/03-ObjectCandidate-0'' speck,
         Call_ConvertCloudToMesh ''/tmp/03-ObjectCandidate-1'' triangle,
         Call_ConvertCloudToMesh ''/tmp/03-ObjectCandidate-2'' speck]"
proof -
  have acc: "AccumulatePointClouds (sample_collaborators [sample_frame] [speck, triangle, speck]) 1
     = Inr (frame_cloud sample_frame)"
    by (simp add: sample_collaborators_def Accumulate_def sample_frame_def)
  have ext: "ExtractCandidateObjects (sample_collaborators [sample_frame] [speck, triangle, speck])
        (m_output_directory (object_reconstruction_node sample_configuration) @ ''00-Debugging'')
        (frame_cloud sample_frame) = [speck, triangle, speck]"
    by (simp add: sample_collaborators_def)
  have upt: "[0..<length [speck, triangle, speck]] = [0, 1, 2]" by (simp add: upt_rec)
  have dir: "m_output_directory (object_reconstruction_node sample_configuration) = ''/tmp/''"
    by (simp add: object_reconstruction_node_def SetOutputDirectory_def sample_configuration_def)
  have evaluated: "filter is_meshing_call
        (calls (FixOcclusions (sample_collaborators [sample_frame] [speck, triangle, speck])
           (object_reconstruction_node sample_configuration) () \<lparr>success = False\<rparr>))
      = [Call_ConvertCloudToMesh ''/tmp/03-ObjectCandidate-0'' speck,
         Call_ConvertCloudToMesh ''/tmp/03-ObjectCandidate-1'' triangle,
         Call_ConvertCloudToMesh ''/tmp/03-ObjectCandidate-2'' speck]"
    by (simp add: run_eval)
  from artifact_names_of_run [OF acc ext, of "()" "\<lparr>success = False\<rparr>"] acc ext evaluated
  show ?thesis unfolding upt dir by simp
qed

subsection \<open>C8: the returned value\<close>

text \<open>
  C8: in every run whose accumulation returned, the value the handler returns is the
  success field it stored in the response, and that field is true exactly when the
  candidate sequence is non-empty.
\<close>

theorem returned_is_success_field:
  assumes "AccumulatePointClouds env 1 = Inr cloud"
  shows "returned (FixOcclusions env self req resp)
      = Inr (success (response (FixOcclusions env self req resp)))
    \<and> success (response (FixOcclusions env self req resp))
      = (ExtractCandidateObjects env (m_output_directory self @ ''00-Debugging'') cloud \<noteq> [])"
proof (cases "ExtractCandidateObjects env (m_output_directory self @ ''00-Debugging'') cloud = []")
  case True
  from FixOcclusions_empty [OF assms True] True show ?thesis by simp
next
  case False
  from FixOcclusions_candidates [OF assms refl False] False show ?thesis by simp
qed

theorem returned_is_success_field_witness:
  "AccumulatePointClouds (sample_collaborators [sample_frame] [triangle]) 1
     = Inr (frame_cloud sample_frame)
   \<and> returned (FixOcclusions (sample_collaborators [sample_frame] [triangle])
        (object_reconstruction_node sample_configuration) () \<lparr>success = False\<rparr>) = Inr True
   \<and> success (response (FixOcclusions (sample_collaborators [sample_frame] [triangle])
        (object_reconstruction_node sample_configuration) () \<lparr>success = False\<rparr>)) = True"
proof -
  have acc: "AccumulatePointClouds (sample_collaborators [sample_frame] [triangle]) 1
     = Inr (frame_cloud sample_frame)"
    by (simp add: sample_collaborators_def Accumulate_def sample_frame_def)
  have ext: "ExtractCandidateObjects (sample_collaborators [sample_frame] [triangle])
        (m_output_directory (object_reconstruction_node sample_configuration) @ ''00-Debugging'')
        (frame_cloud sample_frame) \<noteq> []"
    by (simp add: sample_collaborators_def)
  from returned_is_success_field [OF acc, of "object_reconstruction_node sample_configuration" "()"
      "\<lparr>success = False\<rparr>"] acc ext
  show ?thesis by simp
qed

subsection \<open>C9: independence of the prior field values\<close>

text \<open>
  C9: two runs with the same collaborators, request and response object, on nodes that
  agree on the output directory and differ arbitrarily in \<open>m_resulting_cloud\<close>,
  \<open>m_object_candidates\<close> and \<open>m_operating_mesh\<close>, produce the same response, the same
  returned value and the same calls.
\<close>

theorem response_independent_of_prior_fields:
  assumes "m_output_directory s = m_output_directory t"
  shows "response (FixOcclusions env s req resp) = response (FixOcclusions env t req resp)
    \<and> returned (FixOcclusions env s req resp) = returned (FixOcclusions env t req resp)
    \<and> calls (FixOcclusions env s req resp) = calls (FixOcclusions env t req resp)"
proof (cases rule: run_cases [where env = env and self = s])
  case (failed e)
  then show ?thesis by (simp add: FixOcclusions_failed)
next
  case (empty cloud)
  from empty(2) assms
  have "ExtractCandidateObjects env (m_output_directory t @ ''00-Debugging'') cloud = []"
    by simp
  from FixOcclusions_empty [OF empty(1) this] FixOcclusions_empty [OF empty] assms
  show ?thesis by simp
next
  case (candidates cloud)
  from candidates(2) assms
  have "ExtractCandidateObjects env (m_output_directory t @ ''00-Debugging'') cloud \<noteq> []"
    by simp
  from FixOcclusions_candidates [OF candidates(1) refl this]
    FixOcclusions_candidates [OF candidates(1) refl candidates(2)] assms
  show ?thesis by simp
qed

theorem response_independent_of_prior_fields_witness:
  "m_output_directory (object_reconstruction_node sample_configuration)
     = m_output_directory (object_reconstruction_node sample_configuration
         \<lparr>m_object_candidates := [speck], m_resulting_cloud := triangle,
          m_operating_mesh := \<lparr> vertices = triangle, polygons = [(0, 1, 2)] \<rparr>\<rparr>)
   \<and> response (FixOcclusions (sample_collaborators [sample_frame] [])
        (object_reconstruction_node sample_configuration) () \<lparr>success = True\<rparr>)
     = response (FixOcclusions (sample_collaborators [sample_frame] [])
        (object_reconstruction_node sample_configuration
           \<lparr>m_object_candidates := [speck], m_resulting_cloud := triangle,
            m_operating_mesh := \<lparr> vertices = triangle, polygons = [(0, 1, 2)] \<rparr>\<rparr>)
        () \<lparr>success = True\<rparr>)
   \<and> response (FixOcclusions (sample_collaborators [sample_frame] [])
        (object_reconstruction_node sample_configuration) () \<lparr>success = True\<rparr>)
     = \<lparr>success = False\<rparr>"
proof -
  have dir: "m_output_directory (object_reconstruction_node sample_configuration)
     = m_output_directory (object_reconstruction_node sample_configuration
         \<lparr>m_object_candidates := [speck], m_resulting_cloud := triangle,
          m_operating_mesh := \<lparr> vertices = triangle, polygons = [(0, 1, 2)] \<rparr>\<rparr>)"
    by simp
  have out: "response (FixOcclusions (sample_collaborators [sample_frame] [])
        (object_reconstruction_node sample_configuration) () \<lparr>success = True\<rparr>)
     = \<lparr>success = False\<rparr>"
    by (simp add: run_eval)
  from dir out response_independent_of_prior_fields [OF dir, of "sample_collaborators [sample_frame] []" "()"
      "\<lparr>success = True\<rparr>"]
  show ?thesis by blast
qed

subsection \<open>C10: only the last mesh is kept\<close>

text \<open>
  C10: after a run with \<open>N \<ge> 1\<close> candidates the node consists of the output directory,
  the accumulated cloud, the candidate sequence, and in \<open>m_operating_mesh\<close> the mesh built
  from candidate \<open>N - 1\<close>, which is the last mesh the run built. No field depends on the
  meshes of the earlier candidates: a mesh builder that agrees on the last candidate
  leaves the same node.
\<close>

theorem only_last_mesh_retained:
  assumes "AccumulatePointClouds env 1 = Inr cloud"
    and "ExtractCandidateObjects env (m_output_directory self @ ''00-Debugging'') cloud = cs"
    and "1 \<le> length cs"
  shows "node (FixOcclusions env self req resp)
      = self\<lparr>m_resulting_cloud := cloud, m_object_candidates := cs,
             m_operating_mesh :=
               ConvertCloudToMesh env
                 (m_output_directory self @ ''03-ObjectCandidate-'' @ to_string (int (length cs) - 1))
                 (cs ! (length cs - 1))\<rparr>
    \<and> m_operating_mesh (node (FixOcclusions env self req resp))
      = last (built_meshes env (calls (FixOcclusions env self req resp)))
    \<and> (\<forall>f. f (m_output_directory self @ ''03-ObjectCandidate-'' @ to_string (int (length cs) - 1))
              (cs ! (length cs - 1))
            = ConvertCloudToMesh env
                (m_output_directory self @ ''03-ObjectCandidate-'' @ to_string (int (length cs) - 1))
                (cs ! (length cs - 1))
          \<longrightarrow> node (FixOcclusions (env\<lparr>ConvertCloudToMesh := f\<rparr>) self req resp)
              = node (FixOcclusions env self req resp))"
proof -
  from assms(3) have ne: "cs \<noteq> []" by auto
  then have lst: "last cs = cs ! (length cs - 1)" by (simp add: last_conv_nth)
  have idx: "int (length cs - Suc 0) = int (length cs) - 1" using assms(3) by simp
  have upt: "[0..<length cs] \<noteq> []" using ne by simp
  have a: "node (FixOcclusions env self req resp)
      = self\<lparr>m_resulting_cloud := cloud, m_object_candidates := cs,
             m_operating_mesh :=
               ConvertCloudToMesh env
                 (m_output_directory self @ ''03-ObjectCandidate-'' @ to_string (int (length cs) - 1))
                 (cs ! (length cs - 1))\<rparr>"
    by (simp add: FixOcclusions_candidates [OF assms(1) assms(2) ne] lst)
  have b: "m_operating_mesh (node (FixOcclusions env self req resp))
      = last (built_meshes env (calls (FixOcclusions env self req resp)))"
    using upt ne
    by (simp add: FixOcclusions_candidates [OF assms(1) assms(2) ne] mesh_calls_meshes
          last_map lst idx)
  have c: "node (FixOcclusions (env\<lparr>ConvertCloudToMesh := f\<rparr>) self req resp)
              = node (FixOcclusions env self req resp)"
    if "f (m_output_directory self @ ''03-ObjectCandidate-'' @ to_string (int (length cs) - 1))
              (cs ! (length cs - 1))
            = ConvertCloudToMesh env
                (m_output_directory self @ ''03-ObjectCandidate-'' @ to_string (int (length cs) - 1))
                (cs ! (length cs - 1))" for f
  proof -
    have acc': "AccumulatePointClouds (env\<lparr>ConvertCloudToMesh := f\<rparr>) 1 = Inr cloud"
      using assms(1) by simp
    have ext': "ExtractCandidateObjects (env\<lparr>ConvertCloudToMesh := f\<rparr>)
        (m_output_directory self @ ''00-Debugging'') cloud = cs"
      using assms(2) by simp
    show ?thesis
      using that
      by (simp add: FixOcclusions_candidates [OF assms(1) assms(2) ne]
            FixOcclusions_candidates [OF acc' ext' ne] lst)
  qed
  from a b c show ?thesis by blast
qed

theorem only_last_mesh_retained_witness:
  "AccumulatePointClouds (sample_collaborators [sample_frame] [speck, triangle]) 1
     = Inr (frame_cloud sample_frame)
   \<and> ExtractCandidateObjects (sample_collaborators [sample_frame] [speck, triangle])
        (m_output_directory (object_reconstruction_node sample_configuration) @ ''00-Debugging'')
        (frame_cloud sample_frame) = [speck, triangle]
   \<and> 1 \<le> length [speck, triangle]
   \<and> node (FixOcclusions (sample_collaborators [sample_frame] [speck, triangle])
        (object_reconstruction_node sample_configuration) () \<lparr>success = False\<rparr>)
     = \<lparr> m_output_directory = ''/tmp/'', m_object_candidates = [speck, triangle],
         m_resulting_cloud = frame_cloud sample_frame,
         m_operating_mesh = \<lparr> vertices = triangle, polygons = [(0, 1, 2)] \<rparr> \<rparr>
   \<and> node (FixOcclusions
        (sample_collaborators [sample_frame] [speck, triangle]
           \<lparr>ConvertCloudToMesh := (\<lambda>candidate_name c. \<lparr> vertices = c, polygons = [(0, 1, 2)] \<rparr>)\<rparr>)
        (object_reconstruction_node sample_configuration) () \<lparr>success = False\<rparr>)
     = node (FixOcclusions (sample_collaborators [sample_frame] [speck, triangle])
        (object_reconstruction_node sample_configuration) () \<lparr>success = False\<rparr>)"
proof -
  have acc: "AccumulatePointClouds (sample_collaborators [sample_frame] [speck, triangle]) 1
     = Inr (frame_cloud sample_frame)"
    by (simp add: sample_collaborators_def Accumulate_def sample_frame_def)
  have ext: "ExtractCandidateObjects (sample_collaborators [sample_frame] [speck, triangle])
        (m_output_directory (object_reconstruction_node sample_configuration) @ ''00-Debugging'')
        (frame_cloud sample_frame) = [speck, triangle]"
    by (simp add: sample_collaborators_def)
  have len: "1 \<le> length [speck, triangle]" by simp
  have dir: "m_output_directory (object_reconstruction_node sample_configuration) = ''/tmp/''"
    by (simp add: object_reconstruction_node_def SetOutputDirectory_def sample_configuration_def)
  have mesh: "ConvertCloudToMesh (sample_collaborators [sample_frame] [speck, triangle]) n triangle
      = \<lparr> vertices = triangle, polygons = [(0, 1, 2)] \<rparr>" for n
    by (simp add: sample_collaborators_def sample_mesh_def triangle_def)
  note main = only_last_mesh_retained [OF acc ext len, of "()" "\<lparr>success = False\<rparr>"]
  from main have a: "node (FixOcclusions (sample_collaborators [sample_frame] [speck, triangle])
        (object_reconstruction_node sample_configuration) () \<lparr>success = False\<rparr>)
     = \<lparr> m_output_directory = ''/tmp/'', m_object_candidates = [speck, triangle],
         m_resulting_cloud = frame_cloud sample_frame,
         m_operating_mesh = \<lparr> vertices = triangle, polygons = [(0, 1, 2)] \<rparr> \<rparr>"
    by (simp add: mesh dir object_reconstruction_node_def SetOutputDirectory_def
          sample_configuration_def)
  from main have "\<forall>f. f (m_output_directory (object_reconstruction_node sample_configuration)
                 @ ''03-ObjectCandidate-'' @ to_string (int (length [speck, triangle]) - 1))
              ([speck, triangle] ! (length [speck, triangle] - 1))
            = ConvertCloudToMesh (sample_collaborators [sample_frame] [speck, triangle])
                (m_output_directory (object_reconstruction_node sample_configuration)
                   @ ''03-ObjectCandidate-'' @ to_string (int (length [speck, triangle]) - 1))
                ([speck, triangle] ! (length [speck, triangle] - 1))
          \<longrightarrow> node (FixOcclusions
                (sample_collaborators [sample_frame] [speck, triangle]\<lparr>ConvertCloudToMesh := f\<rparr>)
                (object_reconstruction_node sample_configuration) () \<lparr>success = False\<rparr>)
              = node (FixOcclusions (sample_collaborators [sample_frame] [speck, triangle])
                (object_reconstruction_node sample_configuration) () \<lparr>success = False\<rparr>)"
    by blast
  then have b: "node (FixOcclusions
        (sample_collaborators [sample_frame] [speck, triangle]
           \<lparr>ConvertCloudToMesh := (\<lambda>candidate_name c. \<lparr> vertices = c, polygons = [(0, 1, 2)] \<rparr>)\<rparr>)
        (object_reconstruction_node sample_configuration) () \<lparr>success = False\<rparr>)
     = node (FixOcclusions (sample_collaborators [sample_frame] [speck, triangle])
        (object_reconstruction_node sample_configuration) () \<lparr>success = False\<rparr>)"
    by (simp add: mesh)
  from acc ext len a b show ?thesis by blast
qed

end
